theory Spec2Isabelle
  imports Main
begin

section \<open>JavaScript values\<close>

text \<open>
  The library works on plain JSON-like data.  A value is \<open>undefined\<close>, \<open>null\<close>, a boolean,
  a number, a string, an array or a plain object.

  \<^item> Strings are lists of code units; the model covers the code units 0..255.  A call
    that would produce a string with a larger code unit (\<open>JSON.parse\<close> of a text with a
    \<open>\u\<close> escape above \<open>00FF\<close>) ends with the outcome \<open>OutsideModel\<close>.
  \<^item> A finite number is a double, kept as the decimal that \<open>Number.prototype.toString\<close>
    prints for it: sign, significant digits (no leading and no trailing zero; the empty
    list is zero) and the power of ten of the last digit.  A numeric literal is rounded
    to the nearest double, to an infinity or to zero.
  \<^item> An array is its list of elements, \<open>None\<close> being a hole, together with its named
    (non-index) own properties in insertion order.
  \<^item> A plain object is the list of its own properties in the order in which
    \<open>Object.keys\<close> and \<open>for ... in\<close> enumerate them: array-index keys in ascending
    order first, then the other keys in insertion order.
  \<^item> Only own properties are modelled.  Property names that a value inherits from its
    prototype (\<open>__proto__\<close>, \<open>constructor\<close>, \<open>toString\<close>, the array methods, ...)
    are outside the model, as are accessors and shared (aliased) mutable leaves.
\<close>

datatype jsnum = NaN | Infinity bool | Dec bool "nat list" int

datatype jsval =
    JUndefined
  | JNull
  | JBool bool
  | JNum jsnum
  | JStr string
  | JArr "jsval option list" "(string \<times> jsval) list"
  | JObj "(string \<times> jsval) list"

type_synonym props = "(string \<times> jsval) list"

text \<open>The errors the code can raise: the three it throws itself (named after their
  messages) and the built-in exceptions of the operations it calls.\<close>

datatype error =
    TypeMismatch          \<comment> \<open>\<open>Error("Properties type doesn't matched")\<close>\<close>
  | InvalidJsonString     \<comment> \<open>\<open>Error('Invalid json string')\<close>\<close>
  | InvalidJsonArrayString \<comment> \<open>\<open>Error('Invalid json array string')\<close>\<close>
  | SyntaxError           \<comment> \<open>thrown by \<open>JSON.parse\<close>\<close>
  | TypeError             \<comment> \<open>property access on \<open>null\<close>/\<open>undefined\<close>, call of a non-function\<close>
  | RangeError            \<comment> \<open>invalid array length, call stack exhausted\<close>
  | OutsideModel          \<comment> \<open>no exception: the call leaves the values that the model covers\<close>

subsection \<open>Strings\<close>

definition is_space :: "char \<Rightarrow> bool" where
  "is_space c = (c \<in> set [CHR 0x09, CHR 0x0A, CHR 0x0B, CHR 0x0C, CHR 0x0D, CHR 0x20, CHR 0xA0])"

text \<open>\<open>String.prototype.trim\<close>.\<close>

definition trim :: "string \<Rightarrow> string" where
  "trim s = rev (dropWhile is_space (rev (dropWhile is_space s)))"

text \<open>\<open>s.split('.')\<close>: never empty; an empty string gives one empty segment.\<close>

fun split_dot :: "string \<Rightarrow> string list" where
  "split_dot [] = [[]]"
| "split_dot (c # cs) =
     (if c = CHR ''.'' then [] # split_dot cs
      else (c # hd (split_dot cs)) # tl (split_dot cs))"

definition startsWith :: "string \<Rightarrow> string \<Rightarrow> bool" where
  "startsWith s p = (take (length p) s = p)"

definition lower_char :: "char \<Rightarrow> char" where
  "lower_char c =
     (let n = (of_char c :: nat)
      in if (65 \<le> n \<and> n \<le> 90) \<or> (192 \<le> n \<and> n \<le> 222 \<and> n \<noteq> 215)
         then char_of (n + 32) else c)"

definition toLowerCase :: "string \<Rightarrow> string" where
  "toLowerCase s = map lower_char s"

subsection \<open>Decimal digits\<close>

definition is_digit :: "char \<Rightarrow> bool" where
  "is_digit c = (48 \<le> (of_char c :: nat) \<and> (of_char c :: nat) \<le> 57)"

definition digit_val :: "char \<Rightarrow> nat" where
  "digit_val c = of_char c - 48"

definition dec_value :: "string \<Rightarrow> nat" where
  "dec_value s = foldl (\<lambda>a c. 10 * a + digit_val c) 0 s"

fun nat_digits :: "nat \<Rightarrow> nat list" where
  "nat_digits n = (if n < 10 then [n] else nat_digits (n div 10) @ [n mod 10])"

declare nat_digits.simps [simp del]

definition digit_char :: "nat \<Rightarrow> char" where
  "digit_char d = ''0123456789'' ! d"

definition nat_to_string :: "nat \<Rightarrow> string" where
  "nat_to_string n = map digit_char (nat_digits n)"

text \<open>An array index is a canonical numeric string below \<open>2^32 - 1\<close>.\<close>

definition index_of :: "string \<Rightarrow> nat option" where
  "index_of s =
     (if s \<noteq> [] \<and> list_all is_digit s \<and> (hd s \<noteq> CHR ''0'' \<or> s = ''0'')
         \<and> int (dec_value s) < 4294967295
      then Some (dec_value s) else None)"

subsection \<open>Numbers\<close>

definition isNaN :: "jsnum \<Rightarrow> bool" where
  "isNaN n = (n = NaN)"

text \<open>The decimal with the given sign, digits and exponent, in normal form.\<close>

definition norm_dec :: "bool \<Rightarrow> nat list \<Rightarrow> int \<Rightarrow> jsnum" where
  "norm_dec neg ds e =
     (let ds1 = dropWhile (\<lambda>d. d = 0) ds;
          z = length (takeWhile (\<lambda>d. d = 0) (rev ds1));
          ds2 = rev (dropWhile (\<lambda>d. d = 0) (rev ds1))
      in if ds2 = [] then Dec neg [] 0 else Dec neg ds2 (e + int z))"

text \<open>
  Rounding to a double.  \<open>double_of p q\<close> is the double nearest to \<open>p / q\<close> (ties to the
  even significand), given as the integer \<open>v\<close> with the value \<open>v * 2^-1074\<close>, and \<open>None\<close>
  when the nearest value lies beyond the largest double.
\<close>

function bitlen :: "int \<Rightarrow> nat" where
  "bitlen n = (if n \<le> 0 then 0 else Suc (bitlen (n div 2)))"
  by pat_completeness auto

termination bitlen
  by (relation "measure nat") auto

declare bitlen.simps [simp del]

definition round_even :: "int \<Rightarrow> int \<Rightarrow> int" where
  "round_even p q =
     (if q < 2 * (p mod q) \<or> (2 * (p mod q) = q \<and> odd (p div q)) then p div q + 1 else p div q)"

definition double_of :: "int \<Rightarrow> int \<Rightarrow> int option" where
  "double_of p q =
     (let b = int (bitlen p) - int (bitlen q);
          ge = (if 0 \<le> b then q * 2 ^ nat b \<le> p else q \<le> p * 2 ^ nat (- b));
          E = max (if ge then b - 52 else b - 53) (- 1074);
          M = (if 0 \<le> E then round_even p (q * 2 ^ nat E) else round_even (p * 2 ^ nat (- E)) q);
          v = M * 2 ^ nat (E + 1074)
      in if 2 ^ 2098 \<le> v then None else Some v)"

text \<open>
  The digits that \<open>Number::toString\<close> prints for a double \<open>v * 2^-1074\<close> above zero: with
  \<open>10^(n-1) \<le> value < 10^n\<close>, the least number \<open>k\<close> of digits such that some \<open>s\<close> of \<open>k\<close>
  digits gives \<open>s * 10^(n-k)\<close> rounding to the double, and of two such \<open>s\<close> the one closer to
  the double.  Seventeen digits always suffice.
\<close>

fun lead_zeros :: "nat \<Rightarrow> int \<Rightarrow> int \<Rightarrow> nat" where
  "lead_zeros 0 p q = 0"
| "lead_zeros (Suc f) p q = (if q \<le> p then 0 else Suc (lead_zeros f (10 * p) q))"

definition magnitude :: "int \<Rightarrow> int" where
  "magnitude v =
     (if 2 ^ 1074 \<le> v then int (length (nat_digits (nat (v div 2 ^ 1074))))
      else 1 - int (lead_zeros 400 v (2 ^ 1074)))"

definition rounds_to :: "int \<Rightarrow> int \<Rightarrow> int \<Rightarrow> bool" where
  "rounds_to s x v =
     (double_of (if 0 \<le> x then s * 10 ^ nat x else s) (if 0 \<le> x then 1 else 10 ^ nat (- x)) = Some v)"

definition candidate :: "int \<Rightarrow> int \<Rightarrow> int \<Rightarrow> int option" where
  "candidate v n k =
     (let x = n - k;
          num = (if 0 \<le> x then v else v * 10 ^ nat (- x));
          den = (if 0 \<le> x then 2 ^ 1074 * 10 ^ nat x else 2 ^ 1074);
          lo = num div den;
          r = num mod den
      in if rounds_to lo x v \<and> rounds_to (lo + 1) x v
         then Some (if 2 * r < den \<or> (2 * r = den \<and> even lo) then lo else lo + 1)
         else if rounds_to lo x v then Some lo
         else if rounds_to (lo + 1) x v then Some (lo + 1)
         else None)"

fun shortest :: "nat \<Rightarrow> int \<Rightarrow> int \<Rightarrow> int \<Rightarrow> int \<times> int" where
  "shortest 0 v n k = (0, 0)"
| "shortest (Suc f) v n k =
     (case candidate v n k of
        Some s \<Rightarrow> (s, n - k)
      | None \<Rightarrow> shortest f v n (k + 1))"

text \<open>
  The number that a decimal literal denotes.  A decimal of at most 15 significant digits
  within the range of the normal doubles is itself the shortest decimal of the double
  nearest to it, so it stands as it is; any other decimal is rounded to the nearest
  double, to an infinity, or to zero.
\<close>

definition round_dec :: "bool \<Rightarrow> nat list \<Rightarrow> int \<Rightarrow> jsnum" where
  "round_dec neg ds e =
     (if length ds \<le> 15 \<and> - 306 \<le> int (length ds) + e \<and> int (length ds) + e \<le> 308
      then Dec neg ds e
      else if 310 < int (length ds) + e then Infinity neg
      else if int (length ds) + e < - 330 then Dec neg [] 0
      else
        (case double_of
                (if 0 \<le> e then int (foldl (\<lambda>a d. 10 * a + d) 0 ds) * 10 ^ nat e
                 else int (foldl (\<lambda>a d. 10 * a + d) 0 ds))
                (if 0 \<le> e then 1 else 10 ^ nat (- e)) of
           None \<Rightarrow> Infinity neg
         | Some v \<Rightarrow>
             if v = 0 then Dec neg [] 0
             else (case shortest 17 v (magnitude v) 1 of
                     (s, x) \<Rightarrow> norm_dec neg (nat_digits (nat s)) x)))"

definition mk_dec :: "bool \<Rightarrow> nat list \<Rightarrow> int \<Rightarrow> jsnum" where
  "mk_dec neg ds e =
     (case norm_dec neg ds e of
        Dec neg' ds' e' \<Rightarrow> if ds' = [] then Dec neg' [] 0 else round_dec neg' ds' e'
      | x \<Rightarrow> x)"

definition num_of_nat :: "nat \<Rightarrow> jsnum" where
  "num_of_nat n = mk_dec False (nat_digits n) 0"

text \<open>The exponent part of a decimal literal: nothing, or \<open>e\<close>/\<open>E\<close>, an optional sign and
  at least one digit, up to the end of the text.\<close>

definition parse_exponent :: "string \<Rightarrow> int option" where
  "parse_exponent s =
     (case s of
        [] \<Rightarrow> Some 0
      | c # r \<Rightarrow>
          if c = CHR ''e'' \<or> c = CHR ''E'' then
            (let neg = (r \<noteq> [] \<and> hd r = CHR ''-'');
                 ds = (if r \<noteq> [] \<and> (hd r = CHR ''-'' \<or> hd r = CHR ''+'') then tl r else r)
             in if ds \<noteq> [] \<and> list_all is_digit ds
                then Some (if neg then - int (dec_value ds) else int (dec_value ds))
                else None)
          else None)"

text \<open>An unsigned decimal literal of \<open>StringToNumber\<close>: \<open>Infinity\<close>, or digits with an
  optional fraction and exponent, at least one digit before or after the point.\<close>

definition parse_decimal :: "bool \<Rightarrow> string \<Rightarrow> jsnum" where
  "parse_decimal neg s =
     (if s = ''Infinity'' then Infinity neg
      else
        (let ip = takeWhile is_digit s;
             r1 = dropWhile is_digit s;
             pt = (r1 \<noteq> [] \<and> hd r1 = CHR ''.'');
             fp = (if pt then takeWhile is_digit (tl r1) else []);
             r2 = (if pt then dropWhile is_digit (tl r1) else r1)
         in if ip = [] \<and> fp = [] then NaN
            else (case parse_exponent r2 of
                    None \<Rightarrow> NaN
                  | Some e \<Rightarrow> mk_dec neg (map digit_val (ip @ fp)) (e - int (length fp)))))"

definition hex_val :: "char \<Rightarrow> nat" where
  "hex_val c =
     (let n = (of_char c :: nat)
      in if 48 \<le> n \<and> n \<le> 57 then n - 48
         else if 97 \<le> n \<and> n \<le> 102 then n - 87
         else if 65 \<le> n \<and> n \<le> 70 then n - 55
         else 16)"

text \<open>The digits of a \<open>0x\<close>, \<open>0o\<close> or \<open>0b\<close> literal.\<close>

definition parse_radix :: "nat \<Rightarrow> string \<Rightarrow> jsnum" where
  "parse_radix b s =
     (if s \<noteq> [] \<and> list_all (\<lambda>c. hex_val c < b) s
      then num_of_nat (foldl (\<lambda>a c. b * a + hex_val c) 0 s)
      else NaN)"

text \<open>\<open>Number(s)\<close> for a string \<open>s\<close> (\<open>StringToNumber\<close>).\<close>

definition Number_str :: "string \<Rightarrow> jsnum" where
  "Number_str s =
     (let t = trim s
      in case t of
           [] \<Rightarrow> Dec False [] 0
         | c # r \<Rightarrow>
             if c = CHR ''0'' \<and> r \<noteq> [] \<and> (hd r = CHR ''x'' \<or> hd r = CHR ''X'')
               then parse_radix 16 (tl r)
             else if c = CHR ''0'' \<and> r \<noteq> [] \<and> (hd r = CHR ''o'' \<or> hd r = CHR ''O'')
               then parse_radix 8 (tl r)
             else if c = CHR ''0'' \<and> r \<noteq> [] \<and> (hd r = CHR ''b'' \<or> hd r = CHR ''B'')
               then parse_radix 2 (tl r)
             else if c = CHR ''-'' then parse_decimal True r
             else if c = CHR ''+'' then parse_decimal False r
             else parse_decimal False t)"

text \<open>\<open>Number::toString\<close>: with \<open>k\<close> digits and the decimal point after digit \<open>n\<close>.\<close>

definition num_to_string :: "jsnum \<Rightarrow> string" where
  "num_to_string x =
     (case x of
        NaN \<Rightarrow> ''NaN''
      | Infinity neg \<Rightarrow> (if neg then ''-Infinity'' else ''Infinity'')
      | Dec neg ds e \<Rightarrow>
          if ds = [] then ''0''
          else
            (let k = int (length ds);
                 n = k + e;
                 s = map digit_char ds;
                 body =
                   (if k \<le> n \<and> n \<le> 21 then s @ replicate (nat (n - k)) CHR ''0''
                    else if 0 < n \<and> n \<le> 21 then take (nat n) s @ ''.'' @ drop (nat n) s
                    else if - 6 < n \<and> n \<le> 0 then ''0.'' @ replicate (nat (- n)) CHR ''0'' @ s
                    else
                      (let ex = (if 0 \<le> n - 1 then ''+'' else ''-'') @ nat_to_string (nat \<bar>n - 1\<bar>)
                       in if k = 1 then s @ ''e'' @ ex
                          else take 1 s @ ''.'' @ drop 1 s @ ''e'' @ ex))
             in if neg then ''-'' @ body else body))"

subsection \<open>Conversions and tests\<close>

fun join_comma :: "string list \<Rightarrow> string" where
  "join_comma [] = []"
| "join_comma [s] = s"
| "join_comma (s # t # ss) = s @ '','' @ join_comma (t # ss)"

text \<open>\<open>ToString\<close>: an array is joined with commas (holes, \<open>undefined\<close> and \<open>null\<close> give
  the empty text), a plain object prints as \<open>[object Object]\<close>.\<close>

fun js_to_string :: "jsval \<Rightarrow> string" where
  "js_to_string JUndefined = ''undefined''"
| "js_to_string JNull = ''null''"
| "js_to_string (JBool b) = (if b then ''true'' else ''false'')"
| "js_to_string (JNum n) = num_to_string n"
| "js_to_string (JStr s) = s"
| "js_to_string (JArr es xs) =
     join_comma (map (\<lambda>e. case e of
                            None \<Rightarrow> []
                          | Some v \<Rightarrow> if v = JUndefined \<or> v = JNull then [] else js_to_string v) es)"
| "js_to_string (JObj ps) = ''[object Object]''"

text \<open>\<open>Number(v)\<close> (\<open>ToNumber\<close>).\<close>

definition Number :: "jsval \<Rightarrow> jsnum" where
  "Number v =
     (case v of
        JUndefined \<Rightarrow> NaN
      | JNull \<Rightarrow> Dec False [] 0
      | JBool b \<Rightarrow> (if b then Dec False [1] 0 else Dec False [] 0)
      | JNum n \<Rightarrow> n
      | JStr s \<Rightarrow> Number_str s
      | JArr es xs \<Rightarrow> Number_str (js_to_string v)
      | JObj ps \<Rightarrow> Number_str (js_to_string v))"

text \<open>The truth value of \<open>v\<close> in a condition.\<close>

definition truthy :: "jsval \<Rightarrow> bool" where
  "truthy v =
     (case v of
        JUndefined \<Rightarrow> False
      | JNull \<Rightarrow> False
      | JBool b \<Rightarrow> b
      | JNum n \<Rightarrow> (case n of NaN \<Rightarrow> False | Infinity neg \<Rightarrow> True | Dec neg ds e \<Rightarrow> ds \<noteq> [])
      | JStr s \<Rightarrow> s \<noteq> []
      | JArr es xs \<Rightarrow> True
      | JObj ps \<Rightarrow> True)"

definition typeof :: "jsval \<Rightarrow> string" where
  "typeof v =
     (case v of
        JUndefined \<Rightarrow> ''undefined''
      | JNull \<Rightarrow> ''object''
      | JBool b \<Rightarrow> ''boolean''
      | JNum n \<Rightarrow> ''number''
      | JStr s \<Rightarrow> ''string''
      | JArr es xs \<Rightarrow> ''object''
      | JObj ps \<Rightarrow> ''object'')"

definition isArray :: "jsval \<Rightarrow> bool" where
  "isArray v = (case v of JArr es xs \<Rightarrow> True | _ \<Rightarrow> False)"

definition nullish :: "jsval \<Rightarrow> bool" where
  "nullish v = (v = JNull \<or> v = JUndefined)"

subsection \<open>Own properties\<close>

text \<open>The property list after adding a key that is not yet present: an array index goes
  in front of the first larger index or the first other key, any other key goes last.\<close>

fun obj_insert :: "string \<Rightarrow> jsval \<Rightarrow> props \<Rightarrow> props" where
  "obj_insert k v [] = [(k, v)]"
| "obj_insert k v ((k', v') # ps) =
     (case index_of k of
        None \<Rightarrow> (k', v') # obj_insert k v ps
      | Some i \<Rightarrow>
          (case index_of k' of
             None \<Rightarrow> (k, v) # (k', v') # ps
           | Some j \<Rightarrow> if j < i then (k', v') # obj_insert k v ps else (k, v) # (k', v') # ps))"

text \<open>\<open>o[k] = v\<close> on the property list of a plain object: an existing key keeps its place.\<close>

fun obj_update :: "string \<Rightarrow> jsval \<Rightarrow> props \<Rightarrow> props" where
  "obj_update k v [] = []"
| "obj_update k v ((k', v') # ps) =
     (if k' = k then (k', v) # ps else (k', v') # obj_update k v ps)"

definition obj_set :: "props \<Rightarrow> string \<Rightarrow> jsval \<Rightarrow> props" where
  "obj_set ps k v =
     (if k \<in> set (map fst ps) then obj_update k v ps else obj_insert k v ps)"

text \<open>\<open>{...a, ...b}\<close> and its building block, the copy of a list of properties onto an object.\<close>

definition obj_assign :: "props \<Rightarrow> props \<Rightarrow> props" where
  "obj_assign ps qs = foldl (\<lambda>acc (k, v). obj_set acc k v) ps qs"

definition spread :: "props \<Rightarrow> props \<Rightarrow> props" where
  "spread a b = obj_assign (obj_assign [] a) b"

definition lookup :: "props \<Rightarrow> string \<Rightarrow> jsval" where
  "lookup ps k = (case map_of ps k of None \<Rightarrow> JUndefined | Some v \<Rightarrow> v)"

text \<open>The elements of an array that are not holes, with their index as key.\<close>

fun arr_entries :: "nat \<Rightarrow> jsval option list \<Rightarrow> props" where
  "arr_entries i [] = []"
| "arr_entries i (None # es) = arr_entries (Suc i) es"
| "arr_entries i (Some v # es) = (nat_to_string i, v) # arr_entries (Suc i) es"

text \<open>The own enumerable properties in enumeration order, as \<open>Object.keys\<close> and
  \<open>for ... in\<close> visit them; none for \<open>null\<close> and \<open>undefined\<close>, on which \<open>Object.keys\<close> throws
  and \<open>for ... in\<close> does not iterate.\<close>

definition js_entries :: "jsval \<Rightarrow> props" where
  "js_entries v =
     (case v of
        JStr s \<Rightarrow> map (\<lambda>i. (nat_to_string i, JStr [s ! i])) [0..<length s]
      | JArr es xs \<Rightarrow> arr_entries 0 es @ xs
      | JObj ps \<Rightarrow> ps
      | _ \<Rightarrow> [])"

definition Object_keys :: "jsval \<Rightarrow> error + string list" where
  "Object_keys v = (if nullish v then Inl TypeError else Inr (map fst (js_entries v)))"

text \<open>\<open>v[k]\<close> read from a value that is not \<open>null\<close> or \<open>undefined\<close>.\<close>

definition js_get :: "jsval \<Rightarrow> string \<Rightarrow> jsval" where
  "js_get v k =
     (case v of
        JStr s \<Rightarrow>
          (case index_of k of
             Some i \<Rightarrow> if i < length s then JStr [s ! i] else JUndefined
           | None \<Rightarrow> if k = ''length'' then JNum (num_of_nat (length s)) else JUndefined)
      | JArr es xs \<Rightarrow>
          (case index_of k of
             Some i \<Rightarrow> if i < length es then (case es ! i of None \<Rightarrow> JUndefined | Some x \<Rightarrow> x)
                       else JUndefined
           | None \<Rightarrow> if k = ''length'' then JNum (num_of_nat (length es)) else lookup xs k)
      | JObj ps \<Rightarrow> lookup ps k
      | _ \<Rightarrow> JUndefined)"

text \<open>The length a value denotes when it is assigned to \<open>length\<close> of an array: a whole
  number below \<open>2^32\<close>.\<close>

definition array_length_of :: "jsval \<Rightarrow> nat option" where
  "array_length_of v =
     (case Number v of
        Dec neg ds e \<Rightarrow>
          if ds = [] then Some 0
          else if \<not> neg \<and> 0 \<le> e
                  \<and> int (foldl (\<lambda>a d. 10 * a + d) 0 ds) * 10 ^ nat e < 4294967296
               then Some (foldl (\<lambda>a d. 10 * a + d) 0 ds * 10 ^ nat e)
               else None
      | _ \<Rightarrow> None)"

text \<open>\<open>a[k] = v\<close> on an array.\<close>

definition arr_set :: "jsval option list \<Rightarrow> props \<Rightarrow> string \<Rightarrow> jsval \<Rightarrow> error + jsval" where
  "arr_set es xs k v =
     (case index_of k of
        Some i \<Rightarrow>
          Inr (JArr (if i < length es then es[i := Some v]
                     else es @ replicate (i - length es) None @ [Some v]) xs)
      | None \<Rightarrow>
          if k = ''length'' then
            (case array_length_of v of
               None \<Rightarrow> Inl RangeError
             | Some n \<Rightarrow> Inr (JArr (take n es @ replicate (n - length es) None) xs))
          else Inr (JArr es (obj_set xs k v)))"

text \<open>\<open>r[k] = v\<close>.  The file is not in strict mode: a write to a property of a string,
  number or boolean is dropped silently.\<close>

definition js_set :: "jsval \<Rightarrow> string \<Rightarrow> jsval \<Rightarrow> error + jsval" where
  "js_set r k v =
     (case r of
        JUndefined \<Rightarrow> Inl TypeError
      | JNull \<Rightarrow> Inl TypeError
      | JArr es xs \<Rightarrow> arr_set es xs k v
      | JObj ps \<Rightarrow> Inr (JObj (obj_set ps k v))
      | _ \<Rightarrow> Inr r)"

section \<open>\<open>JSON.parse\<close>\<close>

text \<open>
  The built-in parser, as a lexer followed by a push-down recogniser over the tokens.
  A \<open>\u\<close> escape above \<open>00FF\<close> denotes a code unit that the strings of the model do not
  have.  The lexer reads such an escape like any other (it keeps the code unit modulo
  256), so that a text is refused exactly when \<open>JSON.parse\<close> refuses it; the parsed value
  of a text that contains such an escape is never used: \<open>JSON_parse_text\<close> answers
  \<open>OutsideModel\<close> for it.
\<close>

datatype token =
  TLBrace | TRBrace | TLBrack | TRBrack | TColon | TComma
  | TStr string | TNum jsnum | TTrue | TFalse | TNull

datatype smode = SNormal | SEscape | SHex nat nat

definition unescape :: "char \<Rightarrow> char option" where
  "unescape c =
     map_of [(CHR 0x22, CHR 0x22), (CHR 0x5C, CHR 0x5C), (CHR ''/'', CHR ''/''),
             (CHR ''b'', CHR 0x08), (CHR ''f'', CHR 0x0C), (CHR ''n'', CHR 0x0A),
             (CHR ''r'', CHR 0x0D), (CHR ''t'', CHR 0x09)] c"

text \<open>The text of a string literal after its opening quote: the string and what follows
  the closing quote.\<close>

fun lex_string :: "smode \<Rightarrow> string \<Rightarrow> string \<Rightarrow> (string \<times> string) option" where
  "lex_string m acc [] = None"
| "lex_string SNormal acc (c # cs) =
     (if c = CHR 0x22 then Some (rev acc, cs)
      else if c = CHR 0x5C then lex_string SEscape acc cs
      else if (of_char c :: nat) < 32 then None
      else lex_string SNormal (c # acc) cs)"
| "lex_string SEscape acc (c # cs) =
     (if c = CHR ''u'' then lex_string (SHex 4 0) acc cs
      else (case unescape c of None \<Rightarrow> None | Some d \<Rightarrow> lex_string SNormal (d # acc) cs))"
| "lex_string (SHex n v) acc (c # cs) =
     (if hex_val c < 16 then
        (if n = 1 then lex_string SNormal (char_of (16 * v + hex_val c) # acc) cs
         else lex_string (SHex (n - 1) (16 * v + hex_val c)) acc cs)
      else None)"

text \<open>A JSON number at the head of the text: \<open>-\<close>\<open>?\<close> digits (no leading zero), an
  optional fraction, an optional exponent.\<close>

definition lex_number :: "string \<Rightarrow> (jsnum \<times> string) option" where
  "lex_number s =
     (let neg = (s \<noteq> [] \<and> hd s = CHR ''-'');
          s1 = (if neg then tl s else s);
          ip = takeWhile is_digit s1;
          r1 = dropWhile is_digit s1;
          pt = (r1 \<noteq> [] \<and> hd r1 = CHR ''.'');
          fp = (if pt then takeWhile is_digit (tl r1) else []);
          r2 = (if pt then dropWhile is_digit (tl r1) else r1);
          ex = (r2 \<noteq> [] \<and> (hd r2 = CHR ''e'' \<or> hd r2 = CHR ''E''));
          r3 = (if ex then tl r2 else r2);
          eneg = (ex \<and> r3 \<noteq> [] \<and> hd r3 = CHR ''-'');
          r4 = (if ex \<and> r3 \<noteq> [] \<and> (hd r3 = CHR ''-'' \<or> hd r3 = CHR ''+'') then tl r3 else r3);
          ed = (if ex then takeWhile is_digit r4 else []);
          r5 = (if ex then dropWhile is_digit r4 else r2);
          e = (if eneg then - int (dec_value ed) else int (dec_value ed))
      in if ip = [] \<or> (length ip > 1 \<and> hd ip = CHR ''0'') \<or> (pt \<and> fp = []) \<or> (ex \<and> ed = [])
         then None
         else Some (mk_dec neg (map digit_val (ip @ fp)) (e - int (length fp)), r5))"

lemma lex_string_length:
  "lex_string m acc cs = Some (s, rest) \<Longrightarrow> length rest < length cs"
  by (induction m acc cs rule: lex_string.induct)
     (fastforce split: if_splits option.splits)+

lemma lex_number_length:
  assumes "lex_number s = Some (n, rest)"
  shows "length rest < length s"
proof -
  define neg where "neg = (s \<noteq> [] \<and> hd s = CHR ''-'')"
  define s1 where "s1 = (if neg then tl s else s)"
  define ip where "ip = takeWhile is_digit s1"
  define r1 where "r1 = dropWhile is_digit s1"
  define pt where "pt = (r1 \<noteq> [] \<and> hd r1 = CHR ''.'')"
  define fp where "fp = (if pt then takeWhile is_digit (tl r1) else [])"
  define r2 where "r2 = (if pt then dropWhile is_digit (tl r1) else r1)"
  define ex where "ex = (r2 \<noteq> [] \<and> (hd r2 = CHR ''e'' \<or> hd r2 = CHR ''E''))"
  define r3 where "r3 = (if ex then tl r2 else r2)"
  define eneg where "eneg = (ex \<and> r3 \<noteq> [] \<and> hd r3 = CHR ''-'')"
  define r4 where "r4 = (if ex \<and> r3 \<noteq> [] \<and> (hd r3 = CHR ''-'' \<or> hd r3 = CHR ''+'') then tl r3 else r3)"
  define ed where "ed = (if ex then takeWhile is_digit r4 else [])"
  define r5 where "r5 = (if ex then dropWhile is_digit r4 else r2)"
  define e where "e = (if eneg then - int (dec_value ed) else int (dec_value ed))"
  have "lex_number s =
      (if ip = [] \<or> (length ip > 1 \<and> hd ip = CHR ''0'') \<or> (pt \<and> fp = []) \<or> (ex \<and> ed = [])
       then None
       else Some (mk_dec neg (map digit_val (ip @ fp)) (e - int (length fp)), r5))"
    by (simp only: lex_number_def Let_def neg_def s1_def ip_def r1_def pt_def fp_def r2_def
          ex_def r3_def eneg_def r4_def ed_def r5_def e_def)
  with assms have ip: "ip \<noteq> []" and rest: "rest = r5"
    by (simp_all split: if_splits)
  have "length s1 = length ip + length r1"
    unfolding ip_def r1_def by (metis length_append takeWhile_dropWhile_id)
  with ip have a: "length r1 < length s1" by (cases ip) auto
  have b: "length s1 \<le> length s" by (simp add: s1_def)
  have c: "length r2 \<le> length r1"
    unfolding r2_def using length_dropWhile_le [of is_digit "tl r1"] by auto
  have d: "length r3 \<le> length r2" by (simp add: r3_def)
  have e: "length r4 \<le> length r3" by (simp add: r4_def)
  have f: "length r5 \<le> length r2"
    unfolding r5_def using length_dropWhile_le [of is_digit r4] d e by auto
  from a b c f rest show ?thesis by simp
qed

definition json_ws :: "char \<Rightarrow> bool" where
  "json_ws c = (c \<in> set [CHR 0x20, CHR 0x09, CHR 0x0A, CHR 0x0D])"

function lex :: "string \<Rightarrow> token list option" where
  "lex [] = Some []"
| "lex (c # cs) =
     (if json_ws c then lex cs
      else if c = CHR ''{'' then map_option ((#) TLBrace) (lex cs)
      else if c = CHR ''}'' then map_option ((#) TRBrace) (lex cs)
      else if c = CHR ''['' then map_option ((#) TLBrack) (lex cs)
      else if c = CHR '']'' then map_option ((#) TRBrack) (lex cs)
      else if c = CHR '':'' then map_option ((#) TColon) (lex cs)
      else if c = CHR '','' then map_option ((#) TComma) (lex cs)
      else if c = CHR 0x22 then
        (case lex_string SNormal [] cs of
           None \<Rightarrow> None
         | Some (s, rest) \<Rightarrow> map_option ((#) (TStr s)) (lex rest))
      else if c = CHR ''-'' \<or> is_digit c then
        (case lex_number (c # cs) of
           None \<Rightarrow> None
         | Some (n, rest) \<Rightarrow> map_option ((#) (TNum n)) (lex rest))
      else if startsWith (c # cs) ''true'' then map_option ((#) TTrue) (lex (drop 3 cs))
      else if startsWith (c # cs) ''false'' then map_option ((#) TFalse) (lex (drop 4 cs))
      else if startsWith (c # cs) ''null'' then map_option ((#) TNull) (lex (drop 3 cs))
      else None)"
  by pat_completeness auto

termination lex
proof (relation "measure length", goal_cases)
  case (9 c cs x2 s rest)
  then show ?case using lex_string_length [of SNormal "[]" cs s rest] by simp
next
  case (10 c cs x2 n rest)
  then show ?case using lex_number_length [of "c # cs" n rest] by simp
qed simp_all

declare lex.simps [simp del]

datatype frame = FArr "jsval list" | FObj props | FKey props string

datatype pmode = PValue | PValueOrClose | PKeyOrClose | PKey | PColon | PAfter | PDone jsval

text \<open>A value is complete: it is the result, the next element of the array being read or
  the value of the pending key.\<close>

definition complete :: "jsval \<Rightarrow> frame list \<Rightarrow> (pmode \<times> frame list) option" where
  "complete v st =
     (case st of
        [] \<Rightarrow> Some (PDone v, [])
      | FArr vs # st' \<Rightarrow> Some (PAfter, FArr (v # vs) # st')
      | FKey ps k # st' \<Rightarrow> Some (PAfter, FObj (obj_set ps k v) # st')
      | FObj ps # st' \<Rightarrow> None)"

definition open_key :: "string \<Rightarrow> frame list \<Rightarrow> (pmode \<times> frame list) option" where
  "open_key k st = (case st of FObj ps # st' \<Rightarrow> Some (PColon, FKey ps k # st') | _ \<Rightarrow> None)"

definition close_arr :: "frame list \<Rightarrow> (pmode \<times> frame list) option" where
  "close_arr st =
     (case st of FArr vs # st' \<Rightarrow> complete (JArr (map Some (rev vs)) []) st' | _ \<Rightarrow> None)"

definition close_obj :: "frame list \<Rightarrow> (pmode \<times> frame list) option" where
  "close_obj st = (case st of FObj ps # st' \<Rightarrow> complete (JObj ps) st' | _ \<Rightarrow> None)"

definition start_value :: "token \<Rightarrow> frame list \<Rightarrow> (pmode \<times> frame list) option" where
  "start_value t st =
     (case t of
        TStr s \<Rightarrow> complete (JStr s) st
      | TNum n \<Rightarrow> complete (JNum n) st
      | TTrue \<Rightarrow> complete (JBool True) st
      | TFalse \<Rightarrow> complete (JBool False) st
      | TNull \<Rightarrow> complete JNull st
      | TLBrack \<Rightarrow> Some (PValueOrClose, FArr [] # st)
      | TLBrace \<Rightarrow> Some (PKeyOrClose, FObj [] # st)
      | _ \<Rightarrow> None)"

definition step :: "pmode \<Rightarrow> frame list \<Rightarrow> token \<Rightarrow> (pmode \<times> frame list) option" where
  "step m st t =
     (case m of
        PValue \<Rightarrow> start_value t st
      | PValueOrClose \<Rightarrow> (if t = TRBrack then close_arr st else start_value t st)
      | PKeyOrClose \<Rightarrow>
          (case t of TStr k \<Rightarrow> open_key k st | TRBrace \<Rightarrow> close_obj st | _ \<Rightarrow> None)
      | PKey \<Rightarrow> (case t of TStr k \<Rightarrow> open_key k st | _ \<Rightarrow> None)
      | PColon \<Rightarrow> (if t = TColon then Some (PValue, st) else None)
      | PAfter \<Rightarrow>
          (case t of
             TComma \<Rightarrow>
               (case st of
                  FArr vs # st' \<Rightarrow> Some (PValue, st)
                | FObj ps # st' \<Rightarrow> Some (PKey, st)
                | _ \<Rightarrow> None)
           | TRBrack \<Rightarrow> close_arr st
           | TRBrace \<Rightarrow> close_obj st
           | _ \<Rightarrow> None)
      | PDone v \<Rightarrow> None)"

fun parse_run :: "pmode \<Rightarrow> frame list \<Rightarrow> token list \<Rightarrow> jsval option" where
  "parse_run m st [] = (case m of PDone v \<Rightarrow> Some v | _ \<Rightarrow> None)"
| "parse_run m st (t # ts) =
     (case step m st t of None \<Rightarrow> None | Some (m', st') \<Rightarrow> parse_run m' st' ts)"

text \<open>A text contains a \<open>\u\<close> escape above \<open>00FF\<close>: a backslash, \<open>u\<close> and four hexadecimal
  digits of which the first two are not both zero.\<close>

fun wide_escape :: "string \<Rightarrow> bool" where
  "wide_escape (b # u # h1 # h2 # h3 # h4 # cs) =
     (if b = CHR 0x5C \<and> u = CHR ''u'' \<and> hex_val h1 < 16 \<and> hex_val h2 < 16
         \<and> hex_val h3 < 16 \<and> hex_val h4 < 16 \<and> 0 < hex_val h1 + hex_val h2
      then True
      else wide_escape (u # h1 # h2 # h3 # h4 # cs))"
| "wide_escape cs = False"

text \<open>\<open>JSON.parse\<close> of a text, and of any value (converted to its text first).\<close>

definition JSON_parse_text :: "string \<Rightarrow> error + jsval" where
  "JSON_parse_text s =
     (case lex s of
        None \<Rightarrow> Inl SyntaxError
      | Some ts \<Rightarrow>
          (case parse_run PValue [] ts of
             None \<Rightarrow> Inl SyntaxError
           | Some v \<Rightarrow> if wide_escape s then Inl OutsideModel else Inr v))"

definition JSON_parse :: "jsval \<Rightarrow> error + jsval" where
  "JSON_parse v = JSON_parse_text (js_to_string v)"

subsection \<open>The size of a parsed value\<close>

text \<open>A parsed value is smaller than the text it was parsed from; the recursion of the
  merge functions through \<open>JSON.parse\<close> ends for this reason.\<close>

fun weight :: "jsval \<Rightarrow> nat" where
  "weight (JStr s) = Suc (length s)"
| "weight (JArr es xs) =
     Suc (sum_list (map (\<lambda>e. case e of None \<Rightarrow> 0 | Some v \<Rightarrow> weight v) es)
          + sum_list (map (\<lambda>(k, v). weight v) xs))"
| "weight (JObj ps) = Suc (sum_list (map (\<lambda>(k, v). weight v) ps))"
| "weight _ = 0"

definition pw :: "props \<Rightarrow> nat" where
  "pw ps = sum_list (map (\<lambda>(k, v). weight v) ps)"

lemma pw_obj_insert: "pw (obj_insert k v ps) = weight v + pw ps"
  by (induction ps) (auto simp: pw_def split: option.splits)

lemma pw_update: "pw (obj_update k v ps) \<le> weight v + pw ps"
  by (induction ps) (auto simp: pw_def)

lemma pw_obj_set: "pw (obj_set ps k v) \<le> weight v + pw ps"
  using pw_update [of k v ps] by (simp add: obj_set_def pw_obj_insert)

definition tw :: "token \<Rightarrow> nat" where
  "tw t = (case t of TStr s \<Rightarrow> Suc (length s) | TLBrack \<Rightarrow> 1 | TLBrace \<Rightarrow> 1 | _ \<Rightarrow> 0)"

definition fw :: "frame \<Rightarrow> nat" where
  "fw f = (case f of FArr vs \<Rightarrow> Suc (sum_list (map weight vs)) | FObj ps \<Rightarrow> Suc (pw ps) | FKey ps k \<Rightarrow> Suc (pw ps))"

definition mw :: "pmode \<Rightarrow> nat" where
  "mw m = (case m of PDone v \<Rightarrow> weight v | _ \<Rightarrow> 0)"

lemma complete_weight:
  "complete v st = Some (m', st') \<Longrightarrow> mw m' + sum_list (map fw st') \<le> weight v + sum_list (map fw st)"
  using pw_obj_set
  by (auto simp: complete_def mw_def fw_def add.commute split: list.splits frame.splits)

lemma weight_dense: "sum_list (map (\<lambda>e. case e of None \<Rightarrow> 0 | Some v \<Rightarrow> weight v) (map Some vs)) = sum_list (map weight vs)"
  by (induction vs) auto

lemma sum_list_map_rev: "sum_list (map f (rev xs)) = (sum_list (map f xs) :: nat)"
  by (induction xs) auto

lemma close_arr_weight:
  "close_arr st = Some (m', st') \<Longrightarrow> mw m' + sum_list (map fw st') \<le> sum_list (map fw st)"
  by (auto simp: close_arr_def fw_def comp_def sum_list_map_rev split: list.splits frame.splits dest!: complete_weight)

lemma close_obj_weight:
  "close_obj st = Some (m', st') \<Longrightarrow> mw m' + sum_list (map fw st') \<le> sum_list (map fw st)"
  by (auto simp: close_obj_def fw_def pw_def split: list.splits frame.splits dest!: complete_weight)

lemma open_key_weight:
  "open_key k st = Some (m', st') \<Longrightarrow> mw m' + sum_list (map fw st') \<le> sum_list (map fw st)"
  by (auto simp: open_key_def fw_def mw_def split: list.splits frame.splits)

lemma start_value_weight:
  "start_value t st = Some (m', st') \<Longrightarrow> mw m' + sum_list (map fw st') \<le> tw t + sum_list (map fw st)"
  by (auto simp: start_value_def tw_def fw_def mw_def pw_def split: token.splits dest!: complete_weight)

lemma step_weight:
  "step m st t = Some (m', st') \<Longrightarrow> mw m' + sum_list (map fw st') \<le> mw m + tw t + sum_list (map fw st)"
  unfolding step_def
  by (cases m; cases t)
     (auto simp: mw_def split: if_splits list.splits frame.splits
        dest: start_value_weight close_arr_weight close_obj_weight open_key_weight)

lemma parse_run_weight:
  "parse_run m st ts = Some v \<Longrightarrow> weight v \<le> mw m + sum_list (map fw st) + sum_list (map tw ts)"
proof (induction ts arbitrary: m st)
  case Nil
  then show ?case by (auto simp: mw_def split: pmode.splits)
next
  case (Cons t ts)
  then obtain m' st' where s: "step m st t = Some (m', st')" and r: "parse_run m' st' ts = Some v"
    by (auto split: option.splits)
  from Cons.IH [OF r] step_weight [OF s] show ?case by simp
qed

lemma lex_string_weight:
  "lex_string m acc cs = Some (s, rest) \<Longrightarrow> Suc (length s + length rest) \<le> length acc + length cs"
  by (induction m acc cs rule: lex_string.induct)
     (fastforce split: if_splits option.splits)+

lemma lex_weight: "lex s = Some ts \<Longrightarrow> sum_list (map tw ts) \<le> length s"
proof (induction s arbitrary: ts rule: length_induct)
  case (1 s)
  show ?case
  proof (cases s)
    case Nil
    with 1 show ?thesis by (simp add: lex.simps)
  next
    case (Cons c cs)
    have IH: "\<And>ys ts'. length ys \<le> length cs \<Longrightarrow> lex ys = Some ts'
        \<Longrightarrow> sum_list (map tw ts') \<le> length ys"
      using 1(1) Cons by auto
    from 1(2) Cons have eq: "lex (c # cs) = Some ts" by simp
    show ?thesis
    proof (cases "json_ws c")
      case True
      with eq have "lex cs = Some ts" by (simp add: lex.simps)
      from IH [OF _ this] Cons show ?thesis by simp
    next
      case ws: False
      show ?thesis
      proof (cases "c \<in> set ''{}[]:,''")
        case True
        with eq ws obtain t ts' where "lex cs = Some ts'" "ts = t # ts'" "tw t \<le> 1"
          by (auto simp: lex.simps tw_def)
        with IH [of cs ts'] Cons show ?thesis by simp
      next
        case False
        then have np: "c \<noteq> CHR ''{''" "c \<noteq> CHR ''}''" "c \<noteq> CHR ''[''" "c \<noteq> CHR '']''"
          "c \<noteq> CHR '':''" "c \<noteq> CHR '',''"
          by simp_all
        show ?thesis
        proof (cases "c = CHR 0x22")
          case True
          with eq ws np
          have "(case lex_string SNormal [] cs of None \<Rightarrow> None
                 | Some (x, rest) \<Rightarrow> map_option ((#) (TStr x)) (lex rest)) = Some ts"
            by (simp add: lex.simps)
          then obtain x rest ts' where ls: "lex_string SNormal [] cs = Some (x, rest)"
            and l: "lex rest = Some ts'" and ts: "ts = TStr x # ts'"
            by (auto split: option.splits)
          from lex_string_weight [OF ls] have "Suc (length x + length rest) \<le> length cs" by simp
          moreover have "tw (TStr x) = Suc (length x)" by (simp add: tw_def)
          ultimately show ?thesis using IH [of rest ts'] l ts Cons by simp
        next
          case nq: False
          show ?thesis
          proof (cases "c = CHR ''-'' \<or> is_digit c")
            case True
            with eq ws np nq
            have "(case lex_number (c # cs) of None \<Rightarrow> None
                   | Some (n, rest) \<Rightarrow> map_option ((#) (TNum n)) (lex rest)) = Some ts"
              by (simp add: lex.simps)
            then obtain n rest ts' where ln: "lex_number (c # cs) = Some (n, rest)"
              and l: "lex rest = Some ts'" and ts: "ts = TNum n # ts'"
              by (auto split: option.splits)
            from lex_number_length [OF ln] have "length rest \<le> length cs" by simp
            moreover have "tw (TNum n) = 0" by (simp add: tw_def)
            ultimately show ?thesis using IH [of rest ts'] l ts Cons by simp
          next
            case False
            with eq ws np nq
            have "(if startsWith (c # cs) ''true'' then map_option ((#) TTrue) (lex (drop 3 cs))
                   else if startsWith (c # cs) ''false'' then map_option ((#) TFalse) (lex (drop 4 cs))
                   else if startsWith (c # cs) ''null'' then map_option ((#) TNull) (lex (drop 3 cs))
                   else None) = Some ts"
              by (simp add: lex.simps)
            then consider ts' where "lex (drop 3 cs) = Some ts'" "ts = TTrue # ts'"
              | ts' where "lex (drop 4 cs) = Some ts'" "ts = TFalse # ts'"
              | ts' where "lex (drop 3 cs) = Some ts'" "ts = TNull # ts'"
              by (auto split: if_splits)
            moreover have "tw TTrue = 0" "tw TFalse = 0" "tw TNull = 0"
              by (simp_all add: tw_def)
            ultimately show ?thesis
            proof cases
              case 1
              with IH [of "drop 3 cs" ts'] Cons \<open>tw TTrue = 0\<close> show ?thesis by simp
            next
              case 2
              with IH [of "drop 4 cs" ts'] Cons \<open>tw TFalse = 0\<close> show ?thesis by simp
            next
              case 3
              with IH [of "drop 3 cs" ts'] Cons \<open>tw TNull = 0\<close> show ?thesis by simp
            qed
          qed
        qed
      qed
    qed
  qed
qed

lemma JSON_parse_text_weight:
  assumes "JSON_parse_text s = Inr v"
  shows "weight v \<le> length s"
proof -
  from assms obtain ts where l: "lex s = Some ts" and p: "parse_run PValue [] ts = Some v"
    by (auto simp: JSON_parse_text_def split: option.splits if_splits)
  from parse_run_weight [OF p] lex_weight [OF l] show ?thesis by (simp add: mw_def)
qed
section \<open>PathCodec: \<open>deflate\<close>, \<open>deflateKeys\<close>, \<open>_inflateItem\<close>, \<open>inflate\<close>\<close>

text \<open>
  \<open>deflate(json, prefix, keysOnly)\<close>.  The \<open>forEach\<close> over \<open>Object.keys(json)\<close> is
  \<open>deflate_loop\<close>, which carries the object \<open>result\<close>; \<open>Object.keys(json[key])\<close> is
  evaluated before the test and throws on \<open>null\<close> and \<open>undefined\<close>.
\<close>

fun csize :: "jsval \<Rightarrow> nat" where
  "csize (JArr es xs) =
     Suc (sum_list (map (\<lambda>e. case e of None \<Rightarrow> 0 | Some v \<Rightarrow> csize v + 2) es)
          + sum_list (map (\<lambda>(k, v). csize v + 2) xs))"
| "csize (JObj ps) = Suc (sum_list (map (\<lambda>(k, v). csize v + 2) ps))"
| "csize _ = 0"

definition lsize :: "props \<Rightarrow> nat" where
  "lsize kvs = sum_list (map (\<lambda>(k, v). csize v + 2) kvs)"

function deflate :: "jsval \<Rightarrow> string \<Rightarrow> bool \<Rightarrow> error + props"
  and deflate_loop :: "props \<Rightarrow> string \<Rightarrow> bool \<Rightarrow> props \<Rightarrow> error + props"
where
  "deflate json prefix keysOnly =
     (case Object_keys json of
        Inl e \<Rightarrow> Inl e
      | Inr keys \<Rightarrow> deflate_loop (js_entries json) prefix keysOnly [])"
| "deflate_loop [] prefix keysOnly result = Inr result"
| "deflate_loop ((key, value) # rest) prefix keysOnly result =
     (case Object_keys value of
        Inl e \<Rightarrow> Inl e
      | Inr valueKeys \<Rightarrow>
          if truthy value \<and> typeof value = ''object'' \<and> length valueKeys > 0 then
            (let currPrefix = key @ ''.'';
                 prefix' = (if prefix \<noteq> [] then prefix @ currPrefix else currPrefix)
             in case deflate value prefix' keysOnly of
                  Inl e \<Rightarrow> Inl e
                | Inr sub \<Rightarrow> deflate_loop rest prefix keysOnly (spread result sub))
          else
            (let prefix' = (if prefix \<noteq> [] then prefix @ key else key)
             in deflate_loop rest prefix keysOnly (obj_set result prefix' value)))"
  by pat_completeness auto

lemma lsize_arr_entries:
  "lsize (arr_entries i es) = sum_list (map (\<lambda>e. case e of None \<Rightarrow> 0 | Some v \<Rightarrow> csize v + 2) es)"
  by (induction i es rule: arr_entries.induct) (simp_all add: lsize_def)

lemma lsize_js_entries: "lsize (js_entries json) < (case json of JStr s \<Rightarrow> 2 * length s + 1 | _ \<Rightarrow> csize json + 1)"
proof (cases json)
  case (JStr s)
  have "lsize (map (\<lambda>i. (nat_to_string i, JStr [s ! i])) [0..<n]) = 2 * n" for n
    by (induction n) (simp_all add: lsize_def)
  then show ?thesis
    using JStr by (simp add: js_entries_def)
next
  case (JArr es xs)
  have "lsize (arr_entries 0 es @ xs) = lsize (arr_entries 0 es) + lsize xs"
    by (simp add: lsize_def)
  then show ?thesis
    using JArr by (simp add: js_entries_def lsize_arr_entries) (simp add: lsize_def)
next
  case (JObj ps)
  then show ?thesis by (simp add: js_entries_def lsize_def)
qed (simp_all add: js_entries_def lsize_def)

termination deflate
proof (relation "measure (\<lambda>x. case x of
          Inl (json, prefix, keysOnly) \<Rightarrow> (case json of JStr s \<Rightarrow> 2 * length s + 1 | _ \<Rightarrow> csize json + 1)
        | Inr (kvs, prefix, keysOnly, result) \<Rightarrow> lsize kvs)", goal_cases)
  case 1
  show ?case by simp
next
  case (2 json prefix keysOnly keys)
  show ?case using lsize_js_entries [of json] by simp
next
  case (3 key "value" rest prefix keysOnly result valueKeys currPrefix prefix')
  then show ?case
    by (cases "value") (simp_all add: lsize_def typeof_def truthy_def)
next
  case 4
  then show ?case by (simp add: lsize_def)
next
  case 5
  then show ?case by (simp add: lsize_def)
qed

declare deflate.simps [simp del] deflate_loop.simps [simp del]

definition deflateKeys :: "jsval \<Rightarrow> error + string list" where
  "deflateKeys json = (case deflate json [] True of Inl e \<Rightarrow> Inl e | Inr r \<Rightarrow> Inr (map fst r))"

text \<open>
  \<open>_inflateItem(keys, value, result)\<close>, returning what the source returns.  When the first
  segment converts to a number and \<open>result\<close> has no own enumerable key, the parameter is
  rebound to a fresh array and the number (as property key: its string form) is the key.
  \<open>result\<close> is never \<open>null\<close> or \<open>undefined\<close> in a call from this file; if it were, each
  path through the body throws a \<open>TypeError\<close>.  The list of keys is never empty either:
  with no key the source would recurse without end.
\<close>

definition starts_array :: "string \<Rightarrow> jsval \<Rightarrow> bool" where
  "starts_array key result = (\<not> isNaN (Number_str key) \<and> length (js_entries result) = 0)"

fun inflateItem :: "string list \<Rightarrow> jsval \<Rightarrow> jsval \<Rightarrow> error + jsval" where
  "inflateItem [] value result = Inl RangeError"
| "inflateItem (key0 # rest) value result =
     (if nullish result then Inl TypeError
      else
        (let number = Number_str key0;
             result1 = (if starts_array key0 result then JArr [] [] else result);
             key = (if starts_array key0 result then num_to_string number else key0)
         in if length (key0 # rest) = 1 then js_set result1 key value
            else
              (case inflateItem rest value
                      (if truthy (js_get result1 key) then js_get result1 key else JObj []) of
                 Inl e \<Rightarrow> Inl e
               | Inr sub \<Rightarrow> js_set result1 key sub)))"

text \<open>
  \<open>inflate(obj)\<close>.  The value returned by \<open>_inflateItem\<close> is discarded: the object that
  \<open>inflate\<close> holds in \<open>result\<close> changes only when the callee wrote into the object it was
  given, that is, when it did not rebind its parameter to a fresh array.
\<close>

fun inflate_loop :: "props \<Rightarrow> jsval \<Rightarrow> error + jsval" where
  "inflate_loop [] result = Inr result"
| "inflate_loop ((key, value) # rest) result =
     (let keys = split_dot (trim key)
      in case inflateItem keys value result of
           Inl e \<Rightarrow> Inl e
         | Inr r \<Rightarrow> inflate_loop rest (if starts_array (hd keys) result then result else r))"

definition inflate :: "jsval \<Rightarrow> error + jsval" where
  "inflate obj = inflate_loop (js_entries (if obj = JUndefined then JObj [] else obj)) (JObj [])"

section \<open>TypeCoercer: \<open>mergeEnvObject\<close>, \<open>mergeEnvJsonValue\<close>, \<open>mergeEnvArray\<close>\<close>

text \<open>Running a callback over a list in order; the first exception ends the loop.\<close>

fun mapM_err :: "('a \<Rightarrow> error + 'b) \<Rightarrow> 'a list \<Rightarrow> error + 'b list" where
  "mapM_err f [] = Inr []"
| "mapM_err f (x # xs) =
     (case f x of
        Inl e \<Rightarrow> Inl e
      | Inr y \<Rightarrow> (case mapM_err f xs of Inl e \<Rightarrow> Inl e | Inr ys \<Rightarrow> Inr (y # ys)))"

lemma mapM_err_cong [fundef_cong]:
  "xs = ys \<Longrightarrow> (\<And>x. x \<in> set ys \<Longrightarrow> f x = g x) \<Longrightarrow> mapM_err f xs = mapM_err g ys"
  by (induction ys arbitrary: xs) (auto split: sum.splits)

text \<open>\<open>Array.prototype.map\<close>: the callback gets element and index, holes are skipped and
  stay holes, named properties are not copied.\<close>

definition array_map :: "(jsval \<Rightarrow> nat \<Rightarrow> error + jsval) \<Rightarrow> jsval option list \<Rightarrow> error + jsval" where
  "array_map f es =
     (case mapM_err (\<lambda>(i, e). case e of
                                 None \<Rightarrow> Inr None
                               | Some v \<Rightarrow> (case f v i of Inl err \<Rightarrow> Inl err | Inr r \<Rightarrow> Inr (Some r)))
             (zip [0..<length es] es) of
        Inl err \<Rightarrow> Inl err
      | Inr rs \<Rightarrow> Inr (JArr rs []))"

lemma array_map_cong [fundef_cong]:
  "es = es' \<Longrightarrow> (\<And>v i. i < length es' \<Longrightarrow> es' ! i = Some v \<Longrightarrow> f v i = g v i)
     \<Longrightarrow> array_map f es = array_map g es'"
  unfolding array_map_def
  by (rule arg_cong [where f = "\<lambda>r. case r of Inl err \<Rightarrow> Inl err | Inr rs \<Rightarrow> Inr (JArr rs [])"],
      rule mapM_err_cong)
     (auto simp: set_zip split: option.splits)

text \<open>\<open>[...new Set(xs)]\<close>: the first occurrence of each element, in order.\<close>

definition uniq :: "'a list \<Rightarrow> 'a list" where
  "uniq xs = foldl (\<lambda>acc x. if x \<in> set acc then acc else acc @ [x]) [] xs"

text \<open>\<open>x < y\<close> on numbers.\<close>

definition dec_int :: "bool \<Rightarrow> nat list \<Rightarrow> int" where
  "dec_int neg ds = (if neg then - int (foldl (\<lambda>a d. 10 * a + d) 0 ds) else int (foldl (\<lambda>a d. 10 * a + d) 0 ds))"

definition num_less :: "jsnum \<Rightarrow> jsnum \<Rightarrow> bool" where
  "num_less x y =
     (case (x, y) of
        (Dec n1 d1 e1, Dec n2 d2 e2) \<Rightarrow>
          dec_int n1 d1 * 10 ^ nat (e1 - min e1 e2) < dec_int n2 d2 * 10 ^ nat (e2 - min e1 e2)
      | (Dec n1 d1 e1, Infinity neg) \<Rightarrow> \<not> neg
      | (Infinity neg, Dec n2 d2 e2) \<Rightarrow> neg
      | (Infinity neg1, Infinity neg2) \<Rightarrow> neg1 \<and> \<not> neg2
      | _ \<Rightarrow> False)"

text \<open>The block of \<open>mergeEnvObject\<close> that turns an incoming value that is not of type
  \<open>object\<close> into one: a string is parsed as JSON and must give type \<open>object\<close> (which
  \<open>null\<close> and arrays have too).\<close>

definition object_of_env :: "jsval \<Rightarrow> error + jsval" where
  "object_of_env envValue =
     (if typeof envValue \<noteq> ''object'' then
        (if typeof envValue = ''string'' then
           (case JSON_parse envValue of
              Inl e \<Rightarrow> Inl e
            | Inr tmp \<Rightarrow> if typeof tmp = ''object'' then Inr tmp else Inl InvalidJsonString)
         else Inl TypeMismatch)
      else Inr envValue)"

text \<open>The same block of \<open>mergeEnvArray\<close>, with \<open>Array.isArray\<close> as the test.\<close>

definition array_of_env :: "jsval \<Rightarrow> error + jsval" where
  "array_of_env envValue =
     (if \<not> isArray envValue then
        (if typeof envValue = ''string'' then
           (case JSON_parse envValue of
              Inl e \<Rightarrow> Inl e
            | Inr tmp \<Rightarrow> if isArray tmp then Inr tmp else Inl InvalidJsonArrayString)
         else Inl TypeMismatch)
      else Inr envValue)"

text \<open>The default values of the parameters \<open>defaultJson = {}\<close> and \<open>defaultJson = []\<close>:
  they replace \<open>undefined\<close> only.\<close>

definition default_param :: "jsval \<Rightarrow> jsval \<Rightarrow> jsval" where
  "default_param dflt v = (if v = JUndefined then dflt else v)"

text \<open>\<open>typeOfDj\<close>: \<open>(defaultValue !== null && defaultValue !== undefined ? typeof defaultValue
  : defaultType) || typeof envValue\<close>, where \<open>defaultType\<close> is \<open>undefined\<close> when the caller
  passes two arguments.\<close>

definition typeOfDj :: "jsval \<Rightarrow> jsval \<Rightarrow> jsval \<Rightarrow> jsval" where
  "typeOfDj defaultValue envValue defaultType =
     (let t = (if defaultValue \<noteq> JNull \<and> defaultValue \<noteq> JUndefined
               then JStr (typeof defaultValue) else defaultType)
      in if truthy t then t else JStr (typeof envValue))"

text \<open>The branches of \<open>mergeEnvJsonValue\<close> that do not recurse: \<open>boolean\<close>, \<open>number\<close>, no
  type (\<open>!typeOfDj\<close>, with its \<open>try\<close>/\<open>catch\<close> that keeps the default), any other type.\<close>

definition coerce_scalar :: "jsval \<Rightarrow> jsval \<Rightarrow> jsval \<Rightarrow> error + jsval" where
  "coerce_scalar tDj defaultValue envValue =
     (if tDj = JStr ''boolean'' then
        (case JSON_parse envValue of
           Inl e \<Rightarrow> Inl e
         | Inr v \<Rightarrow> if v = JBool True \<or> v = JBool False then Inr v else Inl TypeMismatch)
      else if tDj = JStr ''number'' then
        (if isNaN (Number envValue) then Inl TypeMismatch else Inr (JNum (Number envValue)))
      else if \<not> truthy tDj then
        (let strValue = trim (js_to_string envValue);
             number = Number_str strValue
         in if \<not> isNaN number then Inr (JNum number)
            else if startsWith strValue ''{'' \<or> startsWith strValue ''['' then
              (case JSON_parse_text strValue of
                 Inl e \<Rightarrow> if e = OutsideModel then Inl OutsideModel else Inr defaultValue
               | Inr v \<Rightarrow> Inr v)
            else if toLowerCase strValue = ''true'' then Inr (JBool True)
            else if toLowerCase strValue = ''false'' then Inr (JBool False)
            else Inr (JStr strValue))
      else Inr envValue)"

text \<open>
  In \<open>mergeEnvArray\<close> the default is an array in every call the file makes (\<open>typeof\<close> never
  answers \<open>'array'\<close>).  For an array \<open>length\<close> is the number of elements; for another value
  it is read as a property and compared as a number, and its missing \<open>map\<close> cannot be
  called.
\<close>

definition elements :: "jsval \<Rightarrow> jsval option list" where
  "elements v = (case v of JArr es xs \<Rightarrow> es | _ \<Rightarrow> [])"

text \<open>\<open>defaultJson.length > 0\<close>\<close>

definition length_positive :: "jsval \<Rightarrow> error + bool" where
  "length_positive d =
     (case d of
        JNull \<Rightarrow> Inl TypeError
      | JUndefined \<Rightarrow> Inl TypeError
      | JArr ds dxs \<Rightarrow> Inr (length ds > 0)
      | _ \<Rightarrow> Inr (num_less (Dec False [] 0) (Number (js_get d ''length''))))"

text \<open>\<open>envValue.length > defaultJson.length\<close>, for an array \<open>envValue\<close>\<close>

definition env_longer :: "jsval \<Rightarrow> jsval \<Rightarrow> bool" where
  "env_longer envValue d =
     (case d of
        JArr ds dxs \<Rightarrow> length (elements envValue) > length ds
      | _ \<Rightarrow> num_less (Number (js_get d ''length'')) (num_of_nat (length (elements envValue))))"

function mergeEnvObject :: "jsval \<Rightarrow> jsval \<Rightarrow> error + jsval"
  and mergeEnvJsonValue :: "jsval \<Rightarrow> jsval \<Rightarrow> jsval \<Rightarrow> error + jsval"
  and mergeEnvArray :: "jsval \<Rightarrow> jsval \<Rightarrow> error + jsval"
where
  "mergeEnvObject defaultJson envValue0 =
     (if envValue0 = JNull \<or> envValue0 = JUndefined then Inr (default_param (JObj []) defaultJson)
      else
        (case object_of_env envValue0 of
           Inl e \<Rightarrow> Inl e
         | Inr envValue \<Rightarrow>
             (case Object_keys (default_param (JObj []) defaultJson) of
                Inl e \<Rightarrow> Inl e
              | Inr dkeys \<Rightarrow>
                  (case Object_keys envValue of
                     Inl e \<Rightarrow> Inl e
                   | Inr ekeys \<Rightarrow>
                       (case mapM_err
                               (\<lambda>key. mergeEnvJsonValue
                                        (js_get (default_param (JObj []) defaultJson) key)
                                        (js_get envValue key) JUndefined)
                               (uniq (dkeys @ ekeys)) of
                          Inl e \<Rightarrow> Inl e
                        | Inr vals \<Rightarrow>
                            Inr (JObj (obj_assign [] (zip (uniq (dkeys @ ekeys)) vals))))))))"
| "mergeEnvJsonValue defaultValue envValue defaultType =
     (if truthy envValue then
        (if typeOfDj defaultValue envValue defaultType = JStr ''array'' \<or> isArray defaultValue then
           mergeEnvArray defaultValue envValue
         else if typeOfDj defaultValue envValue defaultType = JStr ''object'' then
           mergeEnvObject defaultValue envValue
         else coerce_scalar (typeOfDj defaultValue envValue defaultType) defaultValue envValue)
      else Inr defaultValue)"
| "mergeEnvArray defaultJson envValue0 =
     (if envValue0 = JNull \<or> envValue0 = JUndefined then Inr (default_param (JArr [] []) defaultJson)
      else
        (case array_of_env envValue0 of
           Inl e \<Rightarrow> Inl e
         | Inr envValue \<Rightarrow>
             (case length_positive (default_param (JArr [] []) defaultJson) of
                Inl e \<Rightarrow> Inl e
              | Inr positive \<Rightarrow>
                  if positive then
                    (if env_longer envValue (default_param (JArr [] []) defaultJson) then
                       array_map
                         (\<lambda>v i. mergeEnvJsonValue
                                  (js_get (default_param (JArr [] []) defaultJson) (nat_to_string i)) v
                                  (JStr (typeof (js_get (default_param (JArr [] []) defaultJson) ''0''))))
                         (elements envValue)
                     else if isArray (default_param (JArr [] []) defaultJson) then
                       array_map
                         (\<lambda>dv i. mergeEnvJsonValue dv (js_get envValue (nat_to_string i))
                                   (JStr (typeof (js_get (default_param (JArr [] []) defaultJson) ''0''))))
                         (elements (default_param (JArr [] []) defaultJson))
                     else Inl TypeError)
                  else Inr envValue)))"
  by pat_completeness auto

lemma weight_lookup: "weight (lookup ps k) \<le> pw ps"
proof (induction ps)
  case Nil
  then show ?case by (simp add: lookup_def pw_def)
next
  case (Cons a ps)
  then show ?case by (cases a) (auto simp: lookup_def pw_def split: option.splits)
qed

lemma weight_nth: "i < length es \<Longrightarrow> es ! i = Some v \<Longrightarrow>
  weight v \<le> sum_list (map (\<lambda>e. case e of None \<Rightarrow> 0 | Some v \<Rightarrow> weight v) es)"
proof (induction es arbitrary: i)
  case Nil
  then show ?case by simp
next
  case (Cons a es)
  then show ?case by (cases i) (auto simp: le_SucI trans_le_add2)
qed

lemma weight_js_get:
  "isArray e \<or> (typeof e = ''object'' \<and> \<not> nullish e) \<Longrightarrow> weight (js_get e k) < weight e"
proof (cases e)
  case (JArr es xs)
  have a: "weight (lookup xs k) \<le> pw xs" by (rule weight_lookup)
  have b: "\<And>i v. i < length es \<Longrightarrow> es ! i = Some v
      \<Longrightarrow> weight v \<le> sum_list (map (\<lambda>e. case e of None \<Rightarrow> 0 | Some v \<Rightarrow> weight v) es)"
    by (rule weight_nth)
  show ?thesis
  proof (cases "index_of k")
    case None
    with a JArr show ?thesis by (simp add: js_get_def pw_def)
  next
    case (Some i)
    with b [of i] JArr show ?thesis
      by (auto simp: js_get_def le_imp_less_Suc trans_le_add1 split: option.splits)
  qed
next
  case (JObj ps)
  then show ?thesis using weight_lookup [of ps k] by (simp add: js_get_def pw_def)
qed (auto simp: isArray_def typeof_def nullish_def)

lemma object_of_env_weight:
  assumes "object_of_env e0 = Inr e" "Object_keys e = Inr ks"
  shows "weight (js_get e k) < weight e0"
proof -
  from assms(2) have nn: "\<not> nullish e" by (auto simp: Object_keys_def split: if_splits)
  from assms(1) have ty: "typeof e = ''object''"
    by (auto simp: object_of_env_def split: if_splits sum.splits)
  have "weight e \<le> weight e0"
  proof (cases e0)
    case (JStr s)
    with assms(1) have "JSON_parse_text s = Inr e"
      by (auto simp: object_of_env_def typeof_def JSON_parse_def split: if_splits sum.splits)
    from JSON_parse_text_weight [OF this] JStr show ?thesis by simp
  qed (use assms(1) in \<open>auto simp: object_of_env_def typeof_def split: if_splits sum.splits\<close>)
  with weight_js_get [of e k] nn ty show ?thesis by simp
qed

lemma array_of_env_weight:
  assumes "array_of_env e0 = Inr e"
  shows "isArray e \<and> weight e \<le> weight e0"
proof (cases e0)
  case (JStr s)
  with assms have "JSON_parse_text s = Inr e" and "isArray e"
    by (auto simp: array_of_env_def typeof_def isArray_def JSON_parse_def split: if_splits sum.splits)
  with JSON_parse_text_weight [of s e] JStr show ?thesis by simp
qed (use assms in \<open>auto simp: array_of_env_def typeof_def isArray_def split: if_splits sum.splits\<close>)

lemma weight_elements:
  "i < length (elements e) \<Longrightarrow> elements e ! i = Some v \<Longrightarrow> weight v < weight e"
  using weight_nth [of i "elements e" v]
  by (cases e) (auto simp: elements_def le_imp_less_Suc trans_le_add1)

termination mergeEnvObject
proof (relation "measure (\<lambda>x. case x of
          Inl (d, e) \<Rightarrow> 2 * weight e
        | Inr (Inl (d, e, t)) \<Rightarrow> 2 * weight e + 1
        | Inr (Inr (d, e)) \<Rightarrow> 2 * weight e)", goal_cases)
  case 1
  show ?case by simp
next
  case (2 defaultJson envValue0 envValue dkeys ekeys key)
  then show ?case using object_of_env_weight [of envValue0 envValue ekeys key] by simp
next
  case 3
  then show ?case by simp
next
  case 4
  then show ?case by simp
next
  case (5 defaultJson envValue0 envValue positive v i)
  then show ?case
    using array_of_env_weight [of envValue0 envValue] weight_elements [of i envValue v] by simp
next
  case (6 defaultJson envValue0 envValue positive dv i)
  then show ?case
    using array_of_env_weight [of envValue0 envValue] weight_js_get [of envValue "nat_to_string i"]
    by simp
qed

declare mergeEnvObject.simps [simp del] mergeEnvJsonValue.simps [simp del]
  mergeEnvArray.simps [simp del]

section \<open>Merger: \<open>merge\<close> and \<open>config\<close>\<close>

text \<open>
  The ambient environment \<open>process.env\<close> is a parameter: the list of its entries, all of
  them strings, in the order of \<open>Object.keys(process.env)\<close>.

  \<open>for (const key in keys)\<close> over the array \<open>keys\<close> binds \<open>key\<close> to the indices of the
  array, as strings.  The callback of \<open>filter\<close> answers \<open>true\<close> or nothing.
\<close>

definition for_in_array :: "'a list \<Rightarrow> string list" where
  "for_in_array xs = map nat_to_string [0..<length xs]"

definition auto_env_keys :: "string list \<Rightarrow> (string \<times> string) list \<Rightarrow> string list" where
  "auto_env_keys keys env =
     filter (\<lambda>envKey. list_ex (\<lambda>key. startsWith envKey (key @ ''.'')) (for_in_array keys))
       (map fst env)"

text \<open>The loop over \<open>allKeys\<close> that fills \<open>envConfig\<close>.\<close>

definition env_config :: "string list \<Rightarrow> (string \<times> string) list \<Rightarrow> props" where
  "env_config allKeys env =
     foldl (\<lambda>envConfig key. case map_of env key of
                                None \<Rightarrow> envConfig
                              | Some envValue \<Rightarrow> obj_set envConfig key (JStr envValue))
       [] allKeys"

text \<open>\<open>merge(conf, envKeys)\<close>; \<open>envKeys\<close> is \<open>None\<close> when the caller leaves it out.\<close>

definition merge :: "jsval \<Rightarrow> string list option \<Rightarrow> (string \<times> string) list \<Rightarrow> error + jsval" where
  "merge conf envKeys env =
     (case deflateKeys (default_param (JObj []) conf) of
        Inl e \<Rightarrow> Inl e
      | Inr keys \<Rightarrow>
          (let envKeys' = (case envKeys of None \<Rightarrow> auto_env_keys keys env | Some ks \<Rightarrow> ks);
               allKeys = keys @ envKeys';
               envConfig = env_config allKeys env
           in case inflate (JObj envConfig) of
                Inl e \<Rightarrow> Inl e
              | Inr envJson \<Rightarrow> mergeEnvObject (default_param (JObj []) conf) envJson))"

text \<open>
  \<open>config(conf, options)\<close>, with the result of \<open>dotenv.config(options)\<close> as parameters:
  \<open>parsed\<close> and the environment it leaves behind.  The function changes the caller's
  object, so it returns a pair: what the call returns or throws, and the object \<open>conf\<close>
  after the call.
\<close>

fun copy_keys :: "props \<Rightarrow> jsval \<Rightarrow> (error + jsval) \<times> jsval" where
  "copy_keys [] conf = (Inr conf, conf)"
| "copy_keys ((key, v) # rest) conf =
     (case js_set conf key v of
        Inl e \<Rightarrow> (Inl e, conf)
      | Inr conf' \<Rightarrow> copy_keys rest conf')"

definition config :: "jsval \<Rightarrow> (string \<times> string) list \<Rightarrow> (string \<times> string) list
    \<Rightarrow> (error + jsval) \<times> jsval" where
  "config conf parsed env =
     (case merge (default_param (JObj []) conf) (Some (map fst parsed)) env of
        Inl e \<Rightarrow> (Inl e, default_param (JObj []) conf)
      | Inr mergedConfig \<Rightarrow> copy_keys (js_entries mergedConfig) (default_param (JObj []) conf))"

section \<open>Plain path segments\<close>



section \<open>Trees that survive the round trip\<close>

text \<open>
  What \<open>inflate\<close> makes of the keys of a container.  A key is numeric when it converts to
  a number, and canonical when the number prints as the key is written.  The first key
  written into a container decides whether \<open>_inflateItem\<close> starts an array, and only the
  first key is replaced by the number it converts to.
\<close>

definition numeric :: "string \<Rightarrow> bool" where
  "numeric k = (\<not> isNaN (Number_str k))"


definition idx :: "string \<Rightarrow> nat" where
  "idx k = (case index_of k of None \<Rightarrow> 0 | Some i \<Rightarrow> i)"

definition is_index :: "string \<Rightarrow> bool" where
  "is_index k = (index_of k \<noteq> None \<and> nat_to_string (idx k) = k)"










text \<open>The entries of a flat mapping written into an object one after the other, each
  along its list of segments.\<close>

fun run :: "(string list \<times> jsval) list \<Rightarrow> jsval \<Rightarrow> error + jsval" where
  "run [] r = Inr r"
| "run ((segs, leaf) # rest) r =
     (case inflateItem segs leaf r of Inl e \<Rightarrow> Inl e | Inr r' \<Rightarrow> run rest r')"

text \<open>
  The container that \<open>inflate\<close> builds from a list of entries: an array when the first key
  is numeric, with the entries under array indices as elements (\<open>sparse\<close>, which leaves
  holes between them) and the other entries as named properties; an object otherwise.
  \<open>rebuild\<close> is a tree with every container built this way.
\<close>

fun sparse :: "jsval option list \<Rightarrow> props \<Rightarrow> jsval option list" where
  "sparse es [] = es"
| "sparse es ((k, v) # kvs) = sparse (es @ replicate (idx k - length es) None @ [Some v]) kvs"

definition build :: "props \<Rightarrow> jsval" where
  "build kvs =
     (if kvs \<noteq> [] \<and> numeric (fst (hd kvs))
      then JArr (sparse [] (takeWhile (\<lambda>(k, v). is_index k) kvs))
                (dropWhile (\<lambda>(k, v). is_index k) kvs)
      else JObj kvs)"


section \<open>Facts about decimal numerals and array indices\<close>

text \<open>The decimal numeral of a number below \<open>2^32 - 1\<close> is the array index it denotes.\<close>

lemma nat_digits_lt10: "d \<in> set (nat_digits n) \<Longrightarrow> d < 10"
proof (induction n arbitrary: d rule: nat_digits.induct)
  case (1 n)
  then show ?case by (cases "n < 10") (auto simp: nat_digits.simps [of n])
qed



lemma nat_digits_value: "foldl (\<lambda>a d. 10 * a + d) 0 (nat_digits n) = n"
proof (induction n rule: nat_digits.induct)
  case (1 n)
  then show ?case by (cases "n < 10") (simp_all add: nat_digits.simps [of n])
qed

lemma digit_char_props:
  assumes "d < 10"
  shows "is_digit (digit_char d)" "digit_val (digit_char d) = d" "digit_char d \<noteq> CHR ''.''"
    "\<not> is_space (digit_char d)" "(digit_char d = CHR ''0'') = (d = 0)"
proof -
  from assms consider "d = 0" | "d = 1" | "d = 2" | "d = 3" | "d = 4" | "d = 5" | "d = 6"
    | "d = 7" | "d = 8" | "d = 9" by atomize_elim arith
  then have "is_digit (digit_char d) \<and> digit_val (digit_char d) = d \<and> digit_char d \<noteq> CHR ''.''
    \<and> \<not> is_space (digit_char d) \<and> ((digit_char d = CHR ''0'') = (d = 0))"
    by cases (simp_all add: digit_char_def is_digit_def digit_val_def is_space_def)
  then show "is_digit (digit_char d)" "digit_val (digit_char d) = d" "digit_char d \<noteq> CHR ''.''"
    "\<not> is_space (digit_char d)" "(digit_char d = CHR ''0'') = (d = 0)"
    by simp_all
qed

lemma dec_value_map: "\<forall>d \<in> set ds. d < 10 \<Longrightarrow>
  foldl (\<lambda>a c. 10 * a + digit_val c) a0 (map digit_char ds) = foldl (\<lambda>a d. 10 * a + d) a0 ds"
  by (induction ds arbitrary: a0) (simp_all add: digit_char_props)

lemma dec_value_nat_to_string: "dec_value (nat_to_string n) = n"
  using dec_value_map [of "nat_digits n" 0] nat_digits_lt10 [of _ n]
  by (simp add: dec_value_def nat_to_string_def nat_digits_value)





lemma index_of_digits: "index_of k = Some i \<Longrightarrow> k \<noteq> [] \<and> list_all is_digit k"
  by (auto simp: index_of_def split: if_splits)

section \<open>Facts about \<open>trim\<close> and about writing a path twice\<close>







lemma Number_str_length: "isNaN (Number_str ''length'')"
  by code_simp













section \<open>Facts about writing the leaves of a tree\<close>






definition is_container :: "jsval \<Rightarrow> bool" where
  "is_container v = (case v of JObj ps \<Rightarrow> True | JArr es xs \<Rightarrow> True | _ \<Rightarrow> False)"

lemma container_props: "is_container v \<Longrightarrow> truthy v \<and> \<not> nullish v"
  by (cases v) (simp_all add: is_container_def truthy_def nullish_def)

lemma js_set_container: "is_container r \<Longrightarrow> js_set r k v = Inr x \<Longrightarrow> is_container x"
  by (cases r) (auto simp: is_container_def js_set_def arr_set_def split: option.splits if_splits)

lemma inflateItem_container:
  "is_container r \<Longrightarrow> inflateItem segs l r = Inr x \<Longrightarrow> is_container x"
proof (cases segs)
  case Nil
  assume "inflateItem segs l r = Inr x"
  with Nil show ?thesis by simp
next
  case (Cons k rest)
  assume c: "is_container r" and i: "inflateItem segs l r = Inr x"
  define r1 where "r1 = (if starts_array k r then JArr [] [] else r)"
  from c have c1: "is_container r1" by (simp add: r1_def is_container_def)
  from c i Cons obtain key y where "js_set r1 key y = Inr x"
    by (auto simp: container_props r1_def Let_def split: if_splits sum.splits)
  with c1 show ?thesis by (rule js_set_container)
qed









lemma length_not_numeric: "\<not> numeric ''length''"
  using Number_str_length by (simp add: numeric_def)

lemma index_pred: "(\<lambda>(k, v). is_index k) = is_index \<circ> fst"
  by (simp add: fun_eq_iff)


lemma dropWhile_keys:
  "map fst (dropWhile (\<lambda>(k, v). is_index k) kvs) = dropWhile is_index (map fst kvs)"
  by (simp add: index_pred dropWhile_map)

















lemma build_container: "is_container (build kvs)"
  by (simp add: build_def is_container_def)



lemma nth_snoc_hole: "(es @ replicate n None @ [Some x]) ! (length es + n) = Some x"
  by (simp add: nth_append)

lemma update_snoc_hole:
  "(es @ replicate n None @ [Some y])[length es + n := Some x] = es @ replicate n None @ [Some x]"
  by (simp add: list_update_append)













lemma run_container: "is_container r \<Longrightarrow> run l r = Inr x \<Longrightarrow> is_container x"
proof (induction l arbitrary: r)
  case Nil
  then show ?case by simp
next
  case (Cons a l)
  obtain segs leaf where a: "a = (segs, leaf)" by (cases a)
  with Cons.prems(2) obtain r' where i: "inflateItem segs leaf r = Inr r'" and r: "run l r' = Inr x"
    by (auto split: sum.splits)
  from inflateItem_container [OF Cons.prems(1) i] have "is_container r'" .
  from Cons.IH [OF this r] show ?case .
qed


























section \<open>Facts about the flat mapping of a tree\<close>

















section \<open>Facts about the paths of a tree\<close>


lemma nat_to_string_inj: "nat_to_string a = nat_to_string b \<Longrightarrow> a = b"
  by (metis dec_value_nat_to_string)



















section \<open>The claims\<close>

subsection \<open>Type inference when the default has no value\<close>

text \<open>\<open>typeOfDj\<close> is never falsy when \<open>defaultType\<close> is absent: its last alternative,
  \<open>typeof envValue\<close>, is a non-empty string.  The branch \<open>!typeOfDj\<close> of
  \<open>mergeEnvJsonValue\<close>, which would infer a number, is therefore never taken by
  \<open>mergeEnvObject\<close>.\<close>

lemma typeOfDj_truthy: "truthy (typeOfDj defaultValue envValue JUndefined)"
  by (cases defaultValue; cases envValue) (simp_all add: typeOfDj_def truthy_def typeof_def)

text \<open>
  Claim C1.  With default \<open>{}\<close>, environment \<open>n=3.5\<close> and \<open>n\<close> given as explicit key, the
  spec expects \<open>merge\<close> to infer the number \<open>3.5\<close>.  The code returns the string: the
  effective type is \<open>typeof envValue\<close>, that is \<open>'string'\<close>, and the value is taken verbatim.
\<close>

theorem C1_untyped_value_stays_string:
  "merge (JObj []) (Some [''n'']) [(''n'', ''3.5'')] = Inr (JObj [(''n'', JStr ''3.5'')])"
  by code_simp

subsection \<open>Falsy incoming values\<close>

text \<open>
  Claim C2, as stated, fails: the strings \<open>"0"\<close> and \<open>"false"\<close> are not empty, so they are
  truthy and are coerced.  Against the default \<open>true\<close> the string \<open>"false"\<close> gives \<open>false\<close> and
  the string \<open>"0"\<close> raises the type-mismatch error; against the default \<open>5\<close> the string \<open>"0"\<close>
  gives \<open>0\<close>.
\<close>

theorem C2_counterexample:
  "mergeEnvJsonValue (JBool True) (JStr ''false'') JUndefined = Inr (JBool False)
   \<and> mergeEnvJsonValue (JBool True) (JStr ''0'') JUndefined = Inl TypeMismatch
   \<and> mergeEnvJsonValue (JNum (Dec False [5] 0)) (JStr ''0'') JUndefined = Inr (JNum (Dec False [] 0))"
  by code_simp

text \<open>
  Claim C2, amended.  For every default value \<open>D\<close> (and every fallback type) the empty
  string never overrides \<open>D\<close>: the coercion step returns \<open>D\<close> unchanged and raises no error.
\<close>

theorem C2_empty_string_keeps_default:
  "mergeEnvJsonValue D (JStr '''') t = Inr D"
  by (simp add: mergeEnvJsonValue.simps truthy_def)

theorem C2_empty_string_keeps_default_witness:
  "mergeEnvJsonValue (JBool True) (JStr '''') JUndefined = Inr (JBool True)"
  using C2_empty_string_keeps_default [of "JBool True" JUndefined] .

subsection \<open>Automatic selection of environment keys\<close>

text \<open>
  Claim C3.  The spec expects the entries whose key extends a leaf path of the default to
  be selected.  The code iterates the array of leaf paths with \<open>for ... in\<close>, which yields
  the indices \<open>"0"\<close>, \<open>"1"\<close>, ...: it selects the keys that start with such an index and a
  dot.  For the default \<open>{a: {b: "x"}}\<close> (leaf path \<open>a.b\<close>) and the environment
  \<open>a.b.c=1\<close>, \<open>0.x=2\<close> it selects \<open>0.x\<close> and not \<open>a.b.c\<close>, and the merge returns the default.
\<close>

theorem C3_auto_selection_uses_indices:
  "deflateKeys (JObj [(''a'', JObj [(''b'', JStr ''x'')])]) = Inr [''a.b'']
   \<and> auto_env_keys [''a.b''] [(''a.b.c'', ''1''), (''0.x'', ''2'')] = [''0.x'']
   \<and> merge (JObj [(''a'', JObj [(''b'', JStr ''x'')])]) None [(''a.b.c'', ''1''), (''0.x'', ''2'')]
       = Inr (JObj [(''a'', JObj [(''b'', JStr ''x'')])])"
  by code_simp

subsection \<open>A numeric first segment at the root\<close>

text \<open>
  Claim C5.  The spec expects an array at the root when the paths start with a number.
  \<open>_inflateItem\<close> creates that array and returns it, but \<open>inflate\<close> drops the returned
  value and keeps its own empty object: the entries are lost.  One level down the
  returned array is stored, as the second conjunct shows.
\<close>

theorem C5_root_array_is_dropped:
  "inflate (JObj [(''0'', JStr ''a''), (''1'', JStr ''b'')]) = Inr (JObj [])
   \<and> inflate (JObj [(''r.0'', JStr ''a''), (''r.1'', JStr ''b'')])
       = Inr (JObj [(''r'', JArr [Some (JStr ''a''), Some (JStr ''b'')] [])])"
  by code_simp

subsection \<open>Boolean defaults\<close>

text \<open>\<open>JSON.parse\<close> fails with a \<open>SyntaxError\<close> only.\<close>

lemma JSON_parse_text_error:
  "JSON_parse_text s = Inl e \<Longrightarrow> e = SyntaxError \<or> e = OutsideModel"
  by (auto simp: JSON_parse_text_def split: option.splits if_splits)

text \<open>The coercion of a non-empty string against a boolean default, whatever the fallback
  type: the string is parsed as JSON and the result must be \<open>true\<close> or \<open>false\<close>.\<close>

lemma boolean_default_string:
  "s \<noteq> [] \<Longrightarrow> mergeEnvJsonValue (JBool b) (JStr s) t =
     (case JSON_parse_text s of
        Inl e \<Rightarrow> Inl e
      | Inr v \<Rightarrow> if v = JBool True \<or> v = JBool False then Inr v else Inl TypeMismatch)"
  by (auto simp: mergeEnvJsonValue.simps truthy_def typeOfDj_def typeof_def isArray_def
        coerce_scalar_def JSON_parse_def
      split: sum.splits)

text \<open>
  Claim C8.  The string \<open>"false"\<close> against a boolean default is parsed as JSON and
  overrides the default; default \<open>{flag: true}\<close> with \<open>flag=false\<close> merges to \<open>{flag: false}\<close>.
\<close>

theorem C8_false_overrides_boolean:
  "mergeEnvJsonValue (JBool b) (JStr ''false'') t = Inr (JBool False)
   \<and> merge (JObj [(''flag'', JBool True)]) None [(''flag'', ''false'')]
       = Inr (JObj [(''flag'', JBool False)])"
proof
  have "JSON_parse_text ''false'' = Inr (JBool False)" by code_simp
  then show "mergeEnvJsonValue (JBool b) (JStr ''false'') t = Inr (JBool False)"
    by (simp add: boolean_default_string)
  show "merge (JObj [(''flag'', JBool True)]) None [(''flag'', ''false'')]
       = Inr (JObj [(''flag'', JBool False)])"
    by code_simp
qed

theorem C8_false_overrides_boolean_witness:
  "mergeEnvJsonValue (JBool True) (JStr ''false'') JUndefined = Inr (JBool False)"
  using C8_false_overrides_boolean [of True JUndefined] by (rule conjunct1)




subsection \<open>Array merge\<close>







subsection \<open>Keys that differ in surrounding white space\<close>



subsection \<open>The round trip of \<open>deflate\<close> and \<open>inflate\<close>\<close>




end
